theory Spec2Isabelle
  imports Complex_Main
begin

section \<open>JavaScript values\<close>

text \<open>
  A JavaScript number is modelled as an exact real or \<open>NaN\<close>. Comparisons are those
  of the language: every comparison with \<open>NaN\<close> is false. Arithmetic is exact (the
  rounding of doubles and the infinities are not modelled); \<open>NaN\<close> is absorbing,
  except that \<open>Math.pow(x, 0)\<close> is 1 for every \<open>x\<close>.
\<close>

datatype jsnum = Num real | NaN

datatype jsval =
    JUndefined
  | JNull
  | JBool bool
  | JNumber jsnum
  | JString string
  | JObject

fun num_truthy :: "jsnum \<Rightarrow> bool" where
  "num_truthy (Num r) = (r \<noteq> 0)"
| "num_truthy NaN = False"

fun truthy :: "jsval \<Rightarrow> bool" where
  "truthy JUndefined = False"
| "truthy JNull = False"
| "truthy (JBool b) = b"
| "truthy (JNumber n) = num_truthy n"
| "truthy (JString s) = (s \<noteq> [])"
| "truthy JObject = True"

fun js_le :: "jsnum \<Rightarrow> jsnum \<Rightarrow> bool" where
  "js_le (Num a) (Num b) = (a \<le> b)"
| "js_le a b = False"

fun js_gt :: "jsnum \<Rightarrow> jsnum \<Rightarrow> bool" where
  "js_gt (Num a) (Num b) = (a > b)"
| "js_gt a b = False"

fun js_ge :: "jsnum \<Rightarrow> jsnum \<Rightarrow> bool" where
  "js_ge (Num a) (Num b) = (a \<ge> b)"
| "js_ge a b = False"

fun js_add :: "jsnum \<Rightarrow> jsnum \<Rightarrow> jsnum" where
  "js_add (Num a) (Num b) = Num (a + b)"
| "js_add a b = NaN"

fun js_sub :: "jsnum \<Rightarrow> jsnum \<Rightarrow> jsnum" where
  "js_sub (Num a) (Num b) = Num (a - b)"
| "js_sub a b = NaN"

fun js_mul :: "jsnum \<Rightarrow> jsnum \<Rightarrow> jsnum" where
  "js_mul (Num a) (Num b) = Num (a * b)"
| "js_mul a b = NaN"

fun js_neg :: "jsnum \<Rightarrow> jsnum" where
  "js_neg (Num a) = Num (- a)"
| "js_neg NaN = NaN"

text \<open>\<open>Math.pow(x, n)\<close> for a count \<open>n\<close>.\<close>

fun js_pow :: "jsnum \<Rightarrow> nat \<Rightarrow> jsnum" where
  "js_pow x 0 = Num 1"
| "js_pow (Num a) n = Num (a ^ n)"
| "js_pow NaN n = NaN"

text \<open>\<open>a || b\<close>.\<close>

definition js_or :: "jsval \<Rightarrow> jsval \<Rightarrow> jsval" where
  "js_or a b = (if truthy a then a else b)"

section \<open>The session document\<close>

text \<open>
  The fields of the \<open>TradingSession\<close> document that the services read and write.
  The balances are schema Numbers; the three counters are Numbers that start at 0 and
  only ever count, so they are naturals; \<open>session_end\<close> is a time stamp, absent
  until the session is closed.
\<close>

record tradingSession =
  status :: string
  session_end :: "nat option"
  initial_balance :: jsnum
  final_balance :: jsnum
  total_trades :: nat
  winning_trades :: nat
  consecutive_losses :: nat

text \<open>The analysis object produced by the trading engine for a tick.\<close>

record analysis =
  amount :: jsval
  direction :: string

section \<open>services/RiskManager.js\<close>

text \<open>
  \<open>approveTrade(session, analysis)\<close>. A missing session or analysis (\<open>null\<close>,
  \<open>undefined\<close>) is \<open>None\<close>.
\<close>

definition approveTrade :: "tradingSession option \<Rightarrow> analysis option \<Rightarrow> bool" where
  "approveTrade sess an =
     (case sess of
        None \<Rightarrow> False
      | Some s \<Rightarrow>
          (case an of
             None \<Rightarrow> False
           | Some a \<Rightarrow>
               (case amount a of
                  JNumber n \<Rightarrow>
                    if js_le n (Num 0) then False
                    else if js_gt n (final_balance s) then False
                    else True
                | _ \<Rightarrow> False)))"

text \<open>
  \<open>checkSessionLimits(currentSessionState)\<close>. The limits of the configuration may
  be absent (\<open>undefined\<close> is \<open>None\<close>); each check is guarded by the truthiness of
  its limit.
\<close>

record limits =
  max_consecutive_losses :: "jsnum option"
  daily_loss_limit_percentage :: "jsnum option"

record sessionState =
  ss_initial_balance :: jsnum
  ss_final_balance :: jsnum
  ss_consecutive_losses :: jsnum
  ss_config :: "limits option"

datatype advice = Continue | Stop

fun opt_truthy :: "jsnum option \<Rightarrow> bool" where
  "opt_truthy None = False"
| "opt_truthy (Some n) = num_truthy n"

text \<open>The number a value converts to: \<open>undefined\<close> converts to \<open>NaN\<close>.\<close>

fun to_num :: "jsnum option \<Rightarrow> jsnum" where
  "to_num None = NaN"
| "to_num (Some n) = n"

definition checkSessionLimits :: "sessionState option \<Rightarrow> advice" where
  "checkSessionLimits st =
     (case st of
        None \<Rightarrow> Continue
      | Some cs \<Rightarrow>
          (case ss_config cs of
             None \<Rightarrow> Continue
           | Some config \<Rightarrow>
               if opt_truthy (max_consecutive_losses config)
                  \<and> js_ge (ss_consecutive_losses cs) (to_num (max_consecutive_losses config))
               then Stop
               else if opt_truthy (daily_loss_limit_percentage config)
                  \<and> js_ge (js_sub (ss_initial_balance cs) (ss_final_balance cs))
                       (js_mul (ss_initial_balance cs) (to_num (daily_loss_limit_percentage config)))
               then Stop
               else Continue))"


section \<open>services/TradingEngine.js\<close>

text \<open>
  \<open>applyMartingaleStrategy(lastTradeFailed, currentConsecutiveLosses, baseStake,
  martingaleMultiplier = 2)\<close>. The base stake comes from the configuration and may be
  any value; an absent multiplier takes the default 2.
\<close>

definition applyMartingaleStrategy :: "bool \<Rightarrow> nat \<Rightarrow> jsval \<Rightarrow> jsnum option \<Rightarrow> jsval" where
  "applyMartingaleStrategy lastTradeFailed currentConsecutiveLosses baseStake martingaleMultiplier =
     (let mult = (case martingaleMultiplier of None \<Rightarrow> Num 2 | Some k \<Rightarrow> k) in
      case baseStake of
        JNumber b \<Rightarrow>
          if js_le b (Num 0) then js_or baseStake (JNumber (Num 1))
          else if lastTradeFailed
               then JNumber (js_mul b (js_pow mult currentConsecutiveLosses))
               else baseStake
      | _ \<Rightarrow> js_or baseStake (JNumber (Num 1)))"

section \<open>services/TradingSessionManager.js\<close>

text \<open>
  The configuration object handed to the manager. It carries the two limits that
  \<open>checkRiskLimits\<close> passes on to the risk manager. An absent option is \<open>None\<close>.
  The maximum of concurrent trades is a whole number, as the specification types it.
\<close>

record managerConfig = limits +
  initialBalance :: jsnum
  max_concurrent_trades :: "int option"
  martingaleEnabled :: bool
  baseStake :: jsval
  martingaleMultiplier :: "jsnum option"

text \<open>
  The fields of a \<open>TradingSessionManager\<close>. A queued job is represented by its
  analysis. \<open>inFlight\<close> is not a field of the class: it lists the \<open>executeTrade\<close>
  promises that \<open>processTradeQueue\<close> has launched and that have not settled yet, so
  that a settlement can only happen for an execution that was launched.
\<close>

record manager =
  config :: managerConfig
  session :: "tradingSession option"
  isActive :: bool
  tradeQueue :: "analysis list"
  currentTrades :: int
  MAX_CONCURRENT_TRADES :: int
  lastTradeFailed :: bool
  inFlight :: "analysis list"

text \<open>The constructor: \<open>config.max_concurrent_trades || 5\<close>.\<close>

definition constructor :: "managerConfig \<Rightarrow> manager" where
  "constructor cfg =
     \<lparr> config = cfg,
       session = None,
       isActive = False,
       tradeQueue = [],
       currentTrades = 0,
       MAX_CONCURRENT_TRADES =
         (case max_concurrent_trades cfg of
            None \<Rightarrow> 5
          | Some k \<Rightarrow> if k = 0 then 5 else k),
       lastTradeFailed = False,
       inFlight = [] \<rparr>"

text \<open>
  \<open>executeTrade(analysis)\<close> up to the call of the venue: the stake (adjusted by the
  martingale strategy when enabled), the risk check on the analysis, and the parameters
  of the order. \<open>None\<close> where the function returns without placing an order.
\<close>

record tradeParams =
  tp_direction :: string
  tp_stake :: jsval

definition executeTrade_params :: "manager \<Rightarrow> analysis \<Rightarrow> tradeParams option" where
  "executeTrade_params m an =
     (case session m of
        None \<Rightarrow> None
      | Some s \<Rightarrow>
          if \<not> isActive m then None
          else
            let currentStake =
                  (if martingaleEnabled (config m)
                   then applyMartingaleStrategy (lastTradeFailed m) (consecutive_losses s)
                          (baseStake (config m)) (martingaleMultiplier (config m))
                   else amount an)
            in if \<not> approveTrade (session m) (Some an) then None
               else Some \<lparr> tp_direction = direction an, tp_stake = currentStake \<rparr>)"

subsection \<open>The trade queue\<close>

text \<open>
  One iteration of the loop of \<open>processTradeQueue\<close>: the oldest job leaves the queue,
  the counter goes up and the execution of the job is launched. The callbacks of the
  launched promise run later, never inside the loop.
\<close>

definition launch :: "analysis \<Rightarrow> analysis list \<Rightarrow> manager \<Rightarrow> manager" where
  "launch tradeJob rest m =
     m\<lparr> tradeQueue := rest,
        currentTrades := currentTrades m + 1,
        inFlight := inFlight m @ [tradeJob] \<rparr>"

function processTradeQueue :: "manager \<Rightarrow> manager" where
  "processTradeQueue m =
     (case tradeQueue m of
        [] \<Rightarrow> m
      | tradeJob # rest \<Rightarrow>
          if currentTrades m < MAX_CONCURRENT_TRADES m
          then processTradeQueue (launch tradeJob rest m)
          else m)"
  by pat_completeness auto
termination
  by (relation "measure (\<lambda>m. length (tradeQueue m))") (auto simp: launch_def)

text \<open>
  The states the manager passes through while \<open>processTradeQueue\<close> runs: the state at
  each evaluation of the loop condition.
\<close>

function processTradeQueue_states :: "manager \<Rightarrow> manager list" where
  "processTradeQueue_states m =
     (case tradeQueue m of
        [] \<Rightarrow> [m]
      | tradeJob # rest \<Rightarrow>
          if currentTrades m < MAX_CONCURRENT_TRADES m
          then m # processTradeQueue_states (launch tradeJob rest m)
          else [m])"
  by pat_completeness auto
termination
  by (relation "measure (\<lambda>m. length (tradeQueue m))") (auto simp: launch_def)

declare processTradeQueue.simps [simp del] processTradeQueue_states.simps [simp del]

text \<open>
  \<open>handleTick(tickData)\<close>; the argument is what \<open>tradingEngine.analyze(tickData)\<close>
  returns (\<open>None\<close> when it is not actionable).
\<close>

definition enqueue :: "analysis \<Rightarrow> manager \<Rightarrow> manager" where
  "enqueue an m = m\<lparr> tradeQueue := tradeQueue m @ [an] \<rparr>"

definition handleTick :: "analysis option \<Rightarrow> manager \<Rightarrow> manager" where
  "handleTick a m =
     (if \<not> isActive m \<or> session m = None then m
      else case a of
             None \<Rightarrow> m
           | Some an \<Rightarrow> processTradeQueue (enqueue an m))"

text \<open>
  The \<open>finally\<close> callback of a launched execution, the \<open>i\<close>-th of those in flight:
  the counter goes down, and the queue is processed again when it has work and room.
  There is no callback for an execution that was not launched.
\<close>

definition settle :: "nat \<Rightarrow> manager \<Rightarrow> manager" where
  "settle i m =
     m\<lparr> currentTrades := currentTrades m - 1,
        inFlight := take i (inFlight m) @ drop (Suc i) (inFlight m) \<rparr>"

definition tradeSettled :: "nat \<Rightarrow> manager \<Rightarrow> manager" where
  "tradeSettled i m =
     (if i < length (inFlight m)
      then let m1 = settle i m in
           if tradeQueue m1 \<noteq> [] \<and> currentTrades m1 < MAX_CONCURRENT_TRADES m1
           then processTradeQueue m1
           else m1
      else m)"

subsection \<open>Stopping the session\<close>

text \<open>
  The persisted documents: the session document of this manager (absent when no
  document with its id is stored) and the trades recorded so far.
\<close>

record trade =
  trade_direction :: string
  trade_stake :: jsval
  trade_payout :: jsnum
  trade_result :: jsval

record store =
  sessionDoc :: "tradingSession option"
  trades :: "trade list"

text \<open>
  \<open>stopSession(reason)\<close> suspends at its \<open>await\<close>s, so it is modelled in the three
  parts that run without interruption.

  \<open>stopSession_begin\<close> is the part before the first \<open>await\<close>: the guard
  \<open>!this.isActive && this.session?.status !== 'active'\<close> (the request is ignored:
  \<open>None\<close>), then the flag and the queue.
\<close>

definition stopSession_begin :: "manager \<Rightarrow> manager option" where
  "stopSession_begin m =
     (if \<not> isActive m \<and> (case session m of None \<Rightarrow> True | Some s \<Rightarrow> status s \<noteq> ''active'')
      then None
      else Some (m\<lparr> isActive := False, tradeQueue := [] \<rparr>))"

definition finalStatus :: "string \<Rightarrow> string" where
  "finalStatus reason =
     (if reason = ''risk_limit_breach'' \<or> reason = ''market_data_error''
         \<or> reason = ''emergency_system_shutdown''
      then ''stopped_auto''
      else if reason = ''user_request'' then ''stopped_user''
      else ''completed'')"

text \<open>
  \<open>stopSession_update\<close> is the part that reads the final balance from the handle and
  issues \<open>findByIdAndUpdate\<close> with the end time \<open>now\<close>, the balance and the final
  status; it yields the store and the updated document (\<open>None\<close> when there is no
  handle or no stored document).
\<close>

definition stopSession_update ::
  "string \<Rightarrow> nat \<Rightarrow> manager \<Rightarrow> store \<Rightarrow> store \<times> tradingSession option" where
  "stopSession_update reason now m db =
     (case session m of
        None \<Rightarrow> (db, None)
      | Some s \<Rightarrow>
          (case sessionDoc db of
             None \<Rightarrow> (db, None)
           | Some d \<Rightarrow>
               let updatedSession =
                     d\<lparr> session_end := Some now,
                        final_balance := final_balance s,
                        status := finalStatus reason \<rparr>
               in (db\<lparr> sessionDoc := Some updatedSession \<rparr>, Some updatedSession)))"

text \<open>
  \<open>stopSession_finish\<close> is the part after the update has returned: the handle is
  replaced by the updated document, if there is one, and the flag is cleared again.
\<close>

definition stopSession_finish :: "tradingSession option \<Rightarrow> manager \<Rightarrow> manager" where
  "stopSession_finish updatedSession m =
     (case updatedSession of
        None \<Rightarrow> m\<lparr> isActive := False \<rparr>
      | Some d \<Rightarrow> m\<lparr> session := Some d, isActive := False \<rparr>)"

text \<open>A call of \<open>stopSession\<close> that nothing interleaves with.\<close>

definition stopSession :: "string \<Rightarrow> nat \<Rightarrow> manager \<times> store \<Rightarrow> manager \<times> store" where
  "stopSession reason now ms =
     (case stopSession_begin (fst ms) of
        None \<Rightarrow> ms
      | Some m1 \<Rightarrow>
          (case stopSession_update reason now m1 (snd ms) of
             (db1, updatedSession) \<Rightarrow> (stopSession_finish updatedSession m1, db1)))"

text \<open>
  Two calls of \<open>stopSession\<close> that overlap: the second is made while the first is
  suspended at an \<open>await\<close> before its update. Both run their first part, then each
  issues its update, then each receives its updated document, the first call first.
\<close>

definition stopSession_overlapping ::
  "string \<Rightarrow> nat \<Rightarrow> string \<Rightarrow> nat \<Rightarrow> manager \<times> store \<Rightarrow> manager \<times> store" where
  "stopSession_overlapping reason1 now1 reason2 now2 ms =
     (case stopSession_begin (fst ms) of
        None \<Rightarrow> stopSession reason2 now2 ms
      | Some m1 \<Rightarrow>
          (case stopSession_begin m1 of
             None \<Rightarrow>
               (case stopSession_update reason1 now1 m1 (snd ms) of
                  (db1, updated1) \<Rightarrow> (stopSession_finish updated1 m1, db1))
           | Some m2 \<Rightarrow>
               (case stopSession_update reason1 now1 m2 (snd ms) of
                  (db1, updated1) \<Rightarrow>
                    (case stopSession_update reason2 now2 m2 db1 of
                       (db2, updated2) \<Rightarrow>
                         (stopSession_finish updated2 (stopSession_finish updated1 m2), db2)))))"

subsection \<open>Schedules\<close>

text \<open>
  What can happen to a manager between two suspensions: a tick arrives, a launched
  execution settles, a stop is requested, or another method assigns the fields it
  owns (\<open>startSession\<close>, \<open>updateSessionStats\<close> and the end of \<open>stopSession\<close> write
  only the session handle, the activity flag and \<open>lastTradeFailed\<close>).
\<close>

datatype event =
    Tick "analysis option"
  | Settled nat
  | StopRequested
  | Assigned "tradingSession option" bool bool

fun step :: "event \<Rightarrow> manager \<Rightarrow> manager" where
  "step (Tick a) m = handleTick a m"
| "step (Settled i) m = tradeSettled i m"
| "step StopRequested m = (case stopSession_begin m of None \<Rightarrow> m | Some m1 \<Rightarrow> m1)"
| "step (Assigned s a f) m = m\<lparr> session := s, isActive := a, lastTradeFailed := f \<rparr>"

fun run :: "event list \<Rightarrow> manager \<Rightarrow> manager" where
  "run [] m = m"
| "run (e # es) m = run es (step e m)"

text \<open>
  The states the manager passes through while it handles an event, the loop of
  \<open>processTradeQueue\<close> included, and along a whole schedule.
\<close>

fun step_states :: "event \<Rightarrow> manager \<Rightarrow> manager list" where
  "step_states (Tick a) m =
     (if \<not> isActive m \<or> session m = None then [m]
      else case a of
             None \<Rightarrow> [m]
           | Some an \<Rightarrow> processTradeQueue_states (enqueue an m))"
| "step_states (Settled i) m =
     (if i < length (inFlight m) then processTradeQueue_states (settle i m) else [m])"
| "step_states e m = [step e m]"

fun instants :: "event list \<Rightarrow> manager \<Rightarrow> manager list" where
  "instants [] m = [m]"
| "instants (e # es) m = m # step_states e m @ instants es (step e m)"

subsection \<open>Recording a trade\<close>

text \<open>
  The result of the venue for an order. \<open>result\<close> and \<open>status\<close> may be any value;
  the payout and the stake are numbers.
\<close>

record tradeResult =
  tr_result :: jsval
  tr_status :: jsval
  tr_payout :: jsnum
  tr_stake :: jsnum

text \<open>
  The writes of the transaction are calls into the database and can fail; which one
  fails, if any, is an input of the model. A transaction works on its own copy of the
  store: the commit makes the copy the store, an abort leaves the store as it was.
\<close>

datatype fault = InsertFails | UpdateFails | SaveFails | CommitFails

datatype error = DbError fault

text \<open>\<open>recordTrade(tradeResult, analysis, mongoDbClientSession)\<close>.\<close>

definition recordTrade ::
  "fault option \<Rightarrow> manager \<Rightarrow> tradeResult \<Rightarrow> analysis \<Rightarrow> store \<Rightarrow> error + store" where
  "recordTrade f m tr an tx =
     (case session m of
        None \<Rightarrow> Inr tx
      | Some s \<Rightarrow>
          let tradeData =
                \<lparr> trade_direction = direction an,
                  trade_stake = js_or (JNumber (tr_stake tr)) (amount an),
                  trade_payout = tr_payout tr,
                  trade_result = js_or (tr_result tr) (tr_status tr) \<rparr>
          in if f = Some InsertFails then Inl (DbError InsertFails)
             else Inr (tx\<lparr> trades := trades tx @ [tradeData] \<rparr>))"

text \<open>
  \<open>checkRiskLimits()\<close>. On the advice to stop it calls \<open>stopSession\<close> without
  awaiting it, so what happens here is the part of \<open>stopSession\<close> before its first
  \<open>await\<close>.
\<close>

definition checkRiskLimits :: "manager \<Rightarrow> manager" where
  "checkRiskLimits m =
     (case session m of
        None \<Rightarrow> m
      | Some s \<Rightarrow>
          if \<not> isActive m then m
          else
            let sessionStateForRiskCheck =
                  \<lparr> ss_initial_balance = initial_balance s,
                    ss_final_balance = final_balance s,
                    ss_consecutive_losses = Num (real (consecutive_losses s)),
                    ss_config = Some \<lparr> max_consecutive_losses = max_consecutive_losses (config m),
                                       daily_loss_limit_percentage =
                                         daily_loss_limit_percentage (config m) \<rparr> \<rparr>
            in if checkSessionLimits (Some sessionStateForRiskCheck) = Stop
               then (case stopSession_begin m of None \<Rightarrow> m | Some m1 \<Rightarrow> m1)
               else m)"

text \<open>
  \<open>updateSessionStats(tradeResult, mongoDbClientSession)\<close>. It returns the outcome
  (an error when a write throws), the manager and the transaction's copy of the store.
  The increment of the consecutive losses is computed from the handle,
  \<open>(this.session.consecutive_losses || 0) + 1\<close>, and set on the stored document; for
  a result that is neither \<open>'win'\<close> nor \<open>'loss'\<close> nothing is set.
\<close>

definition updateSessionStats ::
  "fault option \<Rightarrow> tradeResult \<Rightarrow> manager \<Rightarrow> store \<Rightarrow> (error + unit) \<times> manager \<times> store" where
  "updateSessionStats f tr m tx =
     (case session m of
        None \<Rightarrow> (Inr (), m, tx)
      | Some s \<Rightarrow>
          let won = (tr_result tr = JString ''win'');
              profitOrLoss =
                (if won then js_sub (tr_payout tr) (tr_stake tr) else js_neg (tr_stake tr));
              set_losses =
                (if won then Some 0
                 else if tr_result tr = JString ''loss'' then Some (consecutive_losses s + 1)
                 else None)
          in if f = Some UpdateFails then (Inl (DbError UpdateFails), m, tx)
             else
               (case sessionDoc tx of
                  None \<Rightarrow> (Inr (), m, tx)
                | Some d \<Rightarrow>
                    let d1 = d\<lparr> total_trades := total_trades d + 1,
                                winning_trades := winning_trades d + (if won then 1 else 0),
                                consecutive_losses :=
                                  (case set_losses of
                                     None \<Rightarrow> consecutive_losses d
                                   | Some c \<Rightarrow> c) \<rparr>;
                        tx1 = tx\<lparr> sessionDoc := Some d1 \<rparr>;
                        updatedSession =
                          d1\<lparr> final_balance := js_add (final_balance d1) profitOrLoss \<rparr>
                    in if f = Some SaveFails then (Inl (DbError SaveFails), m, tx1)
                       else
                         let m1 = m\<lparr> session := Some updatedSession \<rparr>;
                             m2 = checkRiskLimits m1;
                             m3 = m2\<lparr> lastTradeFailed := js_le profitOrLoss (Num 0) \<rparr>
                         in (Inr (), m3, tx1\<lparr> sessionDoc := Some updatedSession \<rparr>)))"

text \<open>
  The transaction of \<open>executeTrade\<close>, entered once the venue has returned the result:
  \<open>recordTrade\<close>, then \<open>updateSessionStats\<close>, then the commit. An error of either
  call, or of the commit, aborts the transaction and is thrown again.
\<close>

definition executeTrade_record ::
  "fault option \<Rightarrow> tradeResult \<Rightarrow> analysis \<Rightarrow> manager \<Rightarrow> store
     \<Rightarrow> (error + unit) \<times> manager \<times> store" where
  "executeTrade_record f tr an m db =
     (case recordTrade f m tr an db of
        Inl e \<Rightarrow> (Inl e, m, db)
      | Inr tx1 \<Rightarrow>
          (case updateSessionStats f tr m tx1 of
             (Inl e, m1, tx2) \<Rightarrow> (Inl e, m1, db)
           | (Inr u, m1, tx2) \<Rightarrow>
               if f = Some CommitFails then (Inl (DbError CommitFails), m1, db)
               else (Inr (), m1, tx2)))"

subsection \<open>Connecting the market data\<close>

text \<open>
  An exception thrown by the manager's own code: an \<open>Error\<close> with its message, or
  the \<open>ReferenceError\<close> of a name that is not defined.
\<close>

datatype exn = Thrown_Error string | ReferenceError string

text \<open>
  The names that the module \<open>TradingSessionManager.js\<close> binds: the constants of its
  three \<open>require\<close> lines and the class it declares. A name used in the module is
  looked up here; \<open>MarketDataStream\<close> is not a global of the runtime either.
\<close>

definition module_scope :: "string list" where
  "module_scope =
     [''mongoose'', ''TradingSession'', ''Trade'', ''logger'', ''TradingSessionManager'']"

definition resolve :: "string \<Rightarrow> exn + unit" where
  "resolve name =
     (if name \<in> set module_scope then Inr ()
      else Inl (ReferenceError (name @ '' is not defined'')))"

text \<open>
  \<open>connectMarketData(symbol)\<close>. It throws for a missing symbol; then it evaluates
  \<open>new MarketDataStream(symbol)\<close>, and only after that registers its listeners for
  \<open>'tick'\<close>, \<open>'reconnect'\<close> and \<open>'error'\<close> and connects. The result is the list
  of the events the manager listens to, or the exception thrown.
\<close>

definition connectMarketData :: "jsval \<Rightarrow> exn + string list" where
  "connectMarketData symbol =
     (if \<not> truthy symbol
      then Inl (Thrown_Error ''Market symbol is required to connect market data.'')
      else case resolve ''MarketDataStream'' of
             Inl e \<Rightarrow> Inl e
           | Inr u \<Rightarrow> Inr [''tick'', ''reconnect'', ''error''])"

section \<open>services/MarketDataStream.js\<close>

text \<open>
  The fields of a \<open>MarketDataStream\<close>; \<open>ticking\<close> says that the tick interval is
  set. \<open>MAX_RECONNECTS\<close> and \<open>RECONNECT_DELAY_BASE\<close> are set by the constructor
  and never assigned again.
\<close>

record marketDataStream =
  reconnectAttempts :: nat
  isConnecting :: bool
  isConnected :: bool
  ticking :: bool

definition MAX_RECONNECTS :: nat where
  "MAX_RECONNECTS = 5"

definition RECONNECT_DELAY_BASE :: real where
  "RECONNECT_DELAY_BASE = 1000"

text \<open>What a method of the stream emits or schedules, in order.\<close>

datatype streamEffect =
    Emit_close
  | Emit_error
  | Reconnect_after real

text \<open>
  \<open>_onClose(code, reason)\<close>; \<open>random\<close> is the value of \<open>Math.random()\<close>, a number
  from 0 up to but not including 1.
\<close>

definition onClose :: "real \<Rightarrow> marketDataStream \<Rightarrow> marketDataStream \<times> streamEffect list" where
  "onClose random st =
     (let st1 = st\<lparr> isConnected := False, isConnecting := False, ticking := False \<rparr> in
      if reconnectAttempts st1 < MAX_RECONNECTS
      then
        let delay = 2 ^ reconnectAttempts st1 * RECONNECT_DELAY_BASE + random * 1000
        in (st1\<lparr> reconnectAttempts := reconnectAttempts st1 + 1 \<rparr>,
            [Emit_close, Reconnect_after delay])
      else (st1, [Emit_close, Emit_error]))"

text \<open>
  The reconnect delay in the words of the specification:
  \<open>min(2^attempt * baseDelay, cap) + jitter\<close>.
\<close>

definition spec_reconnect_delay :: "nat \<Rightarrow> real \<Rightarrow> real \<Rightarrow> real \<Rightarrow> real" where
  "spec_reconnect_delay attempt baseDelay cap jitter = min (2 ^ attempt * baseDelay) cap + jitter"

text \<open>
  The invariant of the queue: the maximum is the configured one, the counter is the
  number of executions in flight, and it does not exceed the maximum.
\<close>

definition sched_inv :: "int \<Rightarrow> manager \<Rightarrow> bool" where
  "sched_inv k m =
     (MAX_CONCURRENT_TRADES m = k \<and> currentTrades m = int (length (inFlight m))
      \<and> currentTrades m \<le> k)"

section \<open>Example inputs\<close>

definition example_config :: managerConfig where
  "example_config =
     \<lparr> max_consecutive_losses = Some (Num 3),
       daily_loss_limit_percentage = Some (Num (1 / 10)),
       initialBalance = Num 10000,
       max_concurrent_trades = Some 2,
       martingaleEnabled = True,
       baseStake = JNumber (Num 10),
       martingaleMultiplier = Some (Num 2) \<rparr>"

definition example_session :: tradingSession where
  "example_session =
     \<lparr> status = ''active'', session_end = None, initial_balance = Num 10000,
       final_balance = Num 10000, total_trades = 0, winning_trades = 0,
       consecutive_losses = 0 \<rparr>"

definition example_analysis :: analysis where
  "example_analysis = \<lparr> amount = JNumber (Num 10), direction = ''call'' \<rparr>"

definition example_manager :: manager where
  "example_manager = (constructor example_config)\<lparr> session := Some example_session, isActive := True \<rparr>"

definition example_store :: store where
  "example_store = \<lparr> sessionDoc = Some example_session, trades = [] \<rparr>"


definition example_pending :: tradeResult where
  "example_pending =
     \<lparr> tr_result = JString ''pending'', tr_status = JString ''executed'',
       tr_payout = Num 0, tr_stake = Num 10 \<rparr>"

definition example_stream :: marketDataStream where
  "example_stream =
     \<lparr> reconnectAttempts = 4, isConnecting = False, isConnected = True, ticking = True \<rparr>"

text \<open>The example manager with a negative base stake in its configuration.\<close>

definition example_manager_negative :: manager where
  "example_manager_negative =
     example_manager\<lparr> config := example_config\<lparr> baseStake := JNumber (Num (- 5)) \<rparr> \<rparr>"

section \<open>The risk manager\<close>

lemma approveTrade_numeric:
  "approveTrade (Some s) (Some a) =
     (\<exists>n. amount a = JNumber n \<and> \<not> js_le n (Num 0) \<and> \<not> js_gt n (final_balance s))"
  by (cases "amount a") (auto simp: approveTrade_def)

lemma approveTrade_finite:
  "approveTrade (Some (s\<lparr>final_balance := Num b\<rparr>)) (Some (a\<lparr>amount := JNumber (Num x)\<rparr>))
     = (0 < x \<and> x \<le> b)"
  by (auto simp: approveTrade_def)

text \<open>
  C1. The claim says that a stake that is not a number, \<open>NaN\<close> included, is rejected.
  \<open>NaN\<close> passes the \<open>typeof\<close> test, and neither \<open>NaN <= 0\<close> nor
  \<open>NaN > balance\<close> holds, so \<open>approveTrade\<close> approves a \<open>NaN\<close> stake on every
  session.
\<close>

theorem approveTrade_NaN_approved:
  "approveTrade (Some s) (Some (a\<lparr>amount := JNumber NaN\<rparr>)) = True"
  by (simp add: approveTrade_def)

section \<open>The staking strategy\<close>

text \<open>
  C7. For a base stake \<open>b > 0\<close>, a multiplier \<open>k\<close> and \<open>n\<close> consecutive losses,
  \<open>applyMartingaleStrategy\<close> returns \<open>b * k ^ n\<close> when the last trade failed and
  \<open>b\<close> otherwise; an absent multiplier is 2. The result is a function of the four
  arguments alone.
\<close>

theorem applyMartingaleStrategy_stake:
  assumes "0 < b"
  shows "applyMartingaleStrategy failed n (JNumber (Num b)) (Some (Num k))
           = JNumber (Num (if failed then b * k ^ n else b))
       \<and> applyMartingaleStrategy failed n (JNumber (Num b)) None
           = JNumber (Num (if failed then b * 2 ^ n else b))"
  using assms by (cases n) (simp_all add: applyMartingaleStrategy_def)

theorem applyMartingaleStrategy_stake_witness:
  "(0::real) < 10
   \<and> applyMartingaleStrategy True 3 (JNumber (Num 10)) (Some (Num 2)) = JNumber (Num 80)
   \<and> applyMartingaleStrategy False 3 (JNumber (Num 10)) (Some (Num 2)) = JNumber (Num 10)"
  using applyMartingaleStrategy_stake [of 10 True 3 2]
        applyMartingaleStrategy_stake [of 10 False 3 2]
  by simp

text \<open>
  C6, as the claim states it, fails: for a negative base stake the strategy returns the
  base stake itself, not 1, and raises no error; \<open>executeTrade\<close> then places the
  order with the negative stake.
\<close>

theorem applyMartingaleStrategy_negative_counterexample:
  "applyMartingaleStrategy True 2 (JNumber (Num (- 5))) (Some (Num 2)) = JNumber (Num (- 5))
   \<and> JNumber (Num (- 5)) \<noteq> JNumber (Num 1)
   \<and> executeTrade_params example_manager_negative example_analysis
      = Some \<lparr> tp_direction = ''call'', tp_stake = JNumber (Num (- 5)) \<rparr>"
  by (simp add: applyMartingaleStrategy_def js_or_def executeTrade_params_def approveTrade_def
        example_manager_negative_def example_manager_def example_config_def
        example_session_def example_analysis_def constructor_def)

text \<open>
  C6, amended. For a base stake that is not a number or is a number \<open>\<le> 0\<close>, the
  strategy raises no error and returns \<open>baseStake || 1\<close>: the base stake itself when
  it is truthy (a negative number, a non-empty string, \<open>true\<close>, an object), and 1
  when it is falsy (0, \<open>undefined\<close>, \<open>null\<close>, the empty string, \<open>false\<close>). With
  the martingale enabled, \<open>executeTrade\<close> places the approved order with that value as
  its stake.
\<close>

theorem applyMartingaleStrategy_invalid_baseStake:
  assumes "\<And>b. v = JNumber b \<Longrightarrow> js_le b (Num 0)"
  shows "applyMartingaleStrategy failed n v k = (if truthy v then v else JNumber (Num 1))
       \<and> (isActive m \<and> session m = Some s \<and> martingaleEnabled (config m)
            \<and> baseStake (config m) = v \<and> approveTrade (Some s) (Some an)
          \<longrightarrow> executeTrade_params m an
                = Some \<lparr> tp_direction = direction an,
                         tp_stake = (if truthy v then v else JNumber (Num 1)) \<rparr>)"
proof -
  have a: "applyMartingaleStrategy failed n v k = (if truthy v then v else JNumber (Num 1))"
    for failed n k
    using assms by (cases v) (auto simp: applyMartingaleStrategy_def js_or_def Let_def)
  show ?thesis
    by (auto simp: a executeTrade_params_def Let_def)
qed

theorem applyMartingaleStrategy_invalid_baseStake_witness:
  "applyMartingaleStrategy True 2 (JNumber (Num (- 5))) (Some (Num 2)) = JNumber (Num (- 5))
   \<and> applyMartingaleStrategy True 2 (JNumber (Num 0)) (Some (Num 2)) = JNumber (Num 1)
   \<and> applyMartingaleStrategy True 2 JUndefined (Some (Num 2)) = JNumber (Num 1)
   \<and> applyMartingaleStrategy True 2 (JString ''ten'') (Some (Num 2)) = JString ''ten''
   \<and> isActive example_manager_negative
   \<and> session example_manager_negative = Some example_session
   \<and> martingaleEnabled (config example_manager_negative)
   \<and> baseStake (config example_manager_negative) = JNumber (Num (- 5))
   \<and> approveTrade (Some example_session) (Some example_analysis)
   \<and> executeTrade_params example_manager_negative example_analysis
      = Some \<lparr> tp_direction = direction example_analysis, tp_stake = JNumber (Num (- 5)) \<rparr>"
proof -
  have h1: "js_le b (Num 0)" if "JNumber (Num (- 5)) = JNumber b" for b
    using that by auto
  have h2: "js_le b (Num 0)" if "JNumber (Num 0) = JNumber b" for b
    using that by auto
  have h3: "js_le b (Num 0)" if "JUndefined = JNumber b" for b
    using that by simp
  have h4: "js_le b (Num 0)" if "JString ''ten'' = JNumber b" for b
    using that by simp
  have h5: "isActive example_manager_negative
      \<and> session example_manager_negative = Some example_session
      \<and> martingaleEnabled (config example_manager_negative)
      \<and> baseStake (config example_manager_negative) = JNumber (Num (- 5))
      \<and> approveTrade (Some example_session) (Some example_analysis)"
    by (simp add: example_manager_negative_def example_manager_def example_config_def
          example_session_def example_analysis_def approveTrade_def)
  note r = applyMartingaleStrategy_invalid_baseStake
             [where failed = True and n = 2 and k = "Some (Num 2)", THEN conjunct1]
  note c = applyMartingaleStrategy_invalid_baseStake
             [where v = "JNumber (Num (- 5))" and m = example_manager_negative
                and s = example_session and an = example_analysis, OF h1, THEN conjunct2]
  from c h5 have "executeTrade_params example_manager_negative example_analysis
      = Some \<lparr> tp_direction = direction example_analysis,
               tp_stake = (if truthy (JNumber (Num (- 5))) then JNumber (Num (- 5))
                           else JNumber (Num 1)) \<rparr>"
    by blast
  with h5 r [of "JNumber (Num (- 5))", OF h1] r [of "JNumber (Num 0)", OF h2]
       r [of JUndefined, OF h3] r [of "JString ''ten''", OF h4]
  show ?thesis by simp
qed

section \<open>The session limits\<close>



section \<open>The trade queue\<close>

lemma launch_inv:
  "sched_inv k m \<Longrightarrow> currentTrades m < MAX_CONCURRENT_TRADES m \<Longrightarrow> sched_inv k (launch j r m)"
  by (simp add: sched_inv_def launch_def)

lemma states_Nil: "tradeQueue m = [] \<Longrightarrow> processTradeQueue_states m = [m]"
  by (subst processTradeQueue_states.simps) simp

lemma states_full:
  "\<not> currentTrades m < MAX_CONCURRENT_TRADES m \<Longrightarrow> processTradeQueue_states m = [m]"
  by (subst processTradeQueue_states.simps) (simp split: list.split)

lemma states_launch:
  "tradeQueue m = j # r \<Longrightarrow> currentTrades m < MAX_CONCURRENT_TRADES m \<Longrightarrow>
   processTradeQueue_states m = m # processTradeQueue_states (launch j r m)"
  by (subst processTradeQueue_states.simps) simp

lemma loop_Nil: "tradeQueue m = [] \<Longrightarrow> processTradeQueue m = m"
  by (subst processTradeQueue.simps) simp

lemma loop_full:
  "\<not> currentTrades m < MAX_CONCURRENT_TRADES m \<Longrightarrow> processTradeQueue m = m"
  by (subst processTradeQueue.simps) (simp split: list.split)

lemma loop_launch:
  "tradeQueue m = j # r \<Longrightarrow> currentTrades m < MAX_CONCURRENT_TRADES m \<Longrightarrow>
   processTradeQueue m = processTradeQueue (launch j r m)"
  by (subst processTradeQueue.simps) simp

lemma tradeSettled_decrements_then_pulls:
  assumes "i < length (inFlight m)"
  shows "tradeSettled i m = processTradeQueue (settle i m)
       \<and> currentTrades (settle i m) = currentTrades m - 1
       \<and> tradeQueue (settle i m) = tradeQueue m"
proof -
  have "processTradeQueue (settle i m) = tradeSettled i m"
    using assms
    by (cases "tradeQueue (settle i m)")
       (auto simp: tradeSettled_def Let_def loop_Nil loop_full)
  then show ?thesis by (simp add: settle_def)
qed

lemma states_not_Nil: "processTradeQueue_states m \<noteq> []"
  by (subst processTradeQueue_states.simps) (simp split: list.split)

lemma processTradeQueue_states_inv:
  "sched_inv k m \<Longrightarrow> x \<in> set (processTradeQueue_states m) \<Longrightarrow> sched_inv k x"
proof (induction m rule: processTradeQueue_states.induct)
  case (1 m)
  show ?case
  proof (cases "tradeQueue m")
    case Nil
    with "1.prems" show ?thesis by (simp add: states_Nil)
  next
    case (Cons j r)
    show ?thesis
    proof (cases "currentTrades m < MAX_CONCURRENT_TRADES m")
      case True
      with Cons "1.prems" have "x = m \<or> x \<in> set (processTradeQueue_states (launch j r m))"
        by (simp add: states_launch)
      then show ?thesis
      proof
        assume "x = m" with "1.prems" show ?thesis by simp
      next
        assume "x \<in> set (processTradeQueue_states (launch j r m))"
        with "1.IH" [OF Cons True launch_inv [OF "1.prems"(1) True]] show ?thesis .
      qed
    next
      case False
      with "1.prems" show ?thesis by (simp add: states_full)
    qed
  qed
qed

lemma processTradeQueue_states_last:
  "last (processTradeQueue_states m) = processTradeQueue m"
proof (induction m rule: processTradeQueue_states.induct)
  case (1 m)
  show ?case
  proof (cases "tradeQueue m")
    case Nil
    then show ?thesis by (simp add: states_Nil loop_Nil)
  next
    case (Cons j r)
    show ?thesis
    proof (cases "currentTrades m < MAX_CONCURRENT_TRADES m")
      case True
      from "1.IH" [OF Cons True] show ?thesis
        by (simp add: states_launch [OF Cons True] loop_launch [OF Cons True] states_not_Nil)
    next
      case False
      then show ?thesis by (simp add: states_full loop_full)
    qed
  qed
qed

lemma step_states_last: "last (step_states e m) = step e m"
proof (cases e)
  case (Tick a)
  then show ?thesis
    by (cases a) (simp_all add: handleTick_def processTradeQueue_states_last)
next
  case (Settled i)
  show ?thesis
  proof (cases "i < length (inFlight m)")
    case True
    have "processTradeQueue (settle i m) = tradeSettled i m"
      using True
      by (cases "tradeQueue (settle i m)")
         (auto simp: tradeSettled_def Let_def loop_Nil loop_full)
    with True Settled show ?thesis by (simp add: processTradeQueue_states_last)
  next
    case False
    with Settled show ?thesis by (simp add: tradeSettled_def)
  qed
next
  case StopRequested
  then show ?thesis by simp
next
  case (Assigned s a f)
  then show ?thesis by simp
qed


lemma step_states_inv:
  "sched_inv k m \<Longrightarrow> x \<in> set (step_states e m) \<Longrightarrow> sched_inv k x"
proof (cases e)
  case (Tick a)
  assume inv: "sched_inv k m" and x: "x \<in> set (step_states e m)"
  show ?thesis
  proof (cases "\<not> isActive m \<or> session m = None \<or> a = None")
    case True
    with Tick inv x show ?thesis by (auto split: if_splits)
  next
    case False
    then obtain an where a: "a = Some an" by auto
    have "sched_inv k (enqueue an m)"
      using inv by (simp add: sched_inv_def enqueue_def)
    moreover have "x \<in> set (processTradeQueue_states (enqueue an m))"
      using False Tick x a by auto
    ultimately show ?thesis by (rule processTradeQueue_states_inv)
  qed
next
  case (Settled i)
  assume inv: "sched_inv k m" and x: "x \<in> set (step_states e m)"
  show ?thesis
  proof (cases "i < length (inFlight m)")
    case True
    have "sched_inv k (settle i m)"
      using inv True by (auto simp: sched_inv_def settle_def)
    moreover have "x \<in> set (processTradeQueue_states (settle i m))"
      using True Settled x by simp
    ultimately show ?thesis by (rule processTradeQueue_states_inv)
  next
    case False
    with Settled inv x show ?thesis by simp
  qed
next
  case StopRequested
  assume "sched_inv k m" and "x \<in> set (step_states e m)"
  with StopRequested show ?thesis
    by (auto simp: sched_inv_def stopSession_begin_def split: if_splits)
next
  case (Assigned s a f)
  assume "sched_inv k m" and "x \<in> set (step_states e m)"
  with Assigned show ?thesis by (simp add: sched_inv_def)
qed

lemma step_inv: "sched_inv k m \<Longrightarrow> sched_inv k (step e m)"
proof -
  assume inv: "sched_inv k m"
  have "step_states e m \<noteq> []"
    by (cases e) (auto simp: states_not_Nil split: option.split)
  then have "last (step_states e m) \<in> set (step_states e m)" by simp
  with inv show ?thesis
    unfolding step_states_last by (rule step_states_inv)
qed

lemma instants_inv:
  "sched_inv k m \<Longrightarrow> x \<in> set (instants es m) \<Longrightarrow> sched_inv k x"
proof (induction es arbitrary: m)
  case Nil
  then show ?case by simp
next
  case (Cons e es)
  from Cons.prems(2)
  consider "x = m" | "x \<in> set (step_states e m)" | "x \<in> set (instants es (step e m))"
    by auto
  then show ?case
  proof cases
    case 1
    with Cons.prems(1) show ?thesis by simp
  next
    case 2
    with Cons.prems(1) show ?thesis by (rule step_states_inv)
  next
    case 3
    with Cons.IH [OF step_inv [OF Cons.prems(1)]] show ?thesis .
  qed
qed

lemma run_in_instants: "run es m \<in> set (instants es m)"
  by (induction es arbitrary: m) auto

lemma constructor_default_max:
  "MAX_CONCURRENT_TRADES (constructor (cfg\<lparr> max_concurrent_trades := None \<rparr>)) = 5"
  by (simp add: constructor_def)

lemma constructor_inv:
  "0 \<le> MAX_CONCURRENT_TRADES (constructor cfg) \<Longrightarrow>
   sched_inv (MAX_CONCURRENT_TRADES (constructor cfg))
     ((constructor cfg)\<lparr> session := s, isActive := a \<rparr>)"
  by (simp add: sched_inv_def constructor_def)

lemma burst_run:
  "run [Tick (Some example_analysis), Tick (Some example_analysis), Tick (Some example_analysis)]
       example_manager
   = example_manager\<lparr> tradeQueue := [example_analysis], currentTrades := 2,
        inFlight := [example_analysis, example_analysis] \<rparr>"
  apply (simp add: example_manager_def constructor_def example_config_def handleTick_def enqueue_def)
  apply (simp add: processTradeQueue.simps launch_def)
  done

text \<open>
  C2. Take a manager as its constructor leaves it, with a configured maximum that is not
  negative, and any session handle and activity flag. Along every schedule of ticks,
  settlements, stop requests and assignments by other methods, in every state the
  manager passes through (the iterations of the loop of \<open>processTradeQueue\<close>
  included), the counter \<open>currentTrades\<close> is the number of executions in flight and
  does not exceed \<open>MAX_CONCURRENT_TRADES\<close>, which stays the configured maximum.
\<close>

theorem currentTrades_never_exceeds_max:
  assumes "0 \<le> MAX_CONCURRENT_TRADES (constructor cfg)"
  shows "\<forall>m \<in> set (instants evs ((constructor cfg)\<lparr> session := s, isActive := a \<rparr>)).
           currentTrades m \<le> MAX_CONCURRENT_TRADES m
           \<and> MAX_CONCURRENT_TRADES m = MAX_CONCURRENT_TRADES (constructor cfg)
           \<and> currentTrades m = int (length (inFlight m))"
proof
  fix m
  assume "m \<in> set (instants evs ((constructor cfg)\<lparr> session := s, isActive := a \<rparr>))"
  with constructor_inv [OF assms] have "sched_inv (MAX_CONCURRENT_TRADES (constructor cfg)) m"
    by (rule instants_inv)
  then show "currentTrades m \<le> MAX_CONCURRENT_TRADES m
           \<and> MAX_CONCURRENT_TRADES m = MAX_CONCURRENT_TRADES (constructor cfg)
           \<and> currentTrades m = int (length (inFlight m))"
    by (simp add: sched_inv_def)
qed

theorem currentTrades_never_exceeds_max_witness:
  "0 \<le> MAX_CONCURRENT_TRADES (constructor example_config)
   \<and> currentTrades (run [Tick (Some example_analysis), Tick (Some example_analysis),
                          Tick (Some example_analysis)] example_manager)
       \<le> MAX_CONCURRENT_TRADES (run [Tick (Some example_analysis), Tick (Some example_analysis),
                          Tick (Some example_analysis)] example_manager)
   \<and> currentTrades (run [Tick (Some example_analysis), Tick (Some example_analysis),
                          Tick (Some example_analysis)] example_manager) = 2
   \<and> tradeQueue (run [Tick (Some example_analysis), Tick (Some example_analysis),
                          Tick (Some example_analysis)] example_manager) = [example_analysis]"
proof -
  have h: "0 \<le> MAX_CONCURRENT_TRADES (constructor example_config)"
    by (simp add: constructor_def example_config_def)
  have r: "run [Tick (Some example_analysis), Tick (Some example_analysis),
                Tick (Some example_analysis)] example_manager
           \<in> set (instants [Tick (Some example_analysis), Tick (Some example_analysis),
                Tick (Some example_analysis)]
                 ((constructor example_config)\<lparr> session := Some example_session, isActive := True \<rparr>))"
    unfolding example_manager_def by (rule run_in_instants)
  from currentTrades_never_exceeds_max [OF h, where s = "Some example_session" and a = True] r
  have "currentTrades (run [Tick (Some example_analysis), Tick (Some example_analysis),
                          Tick (Some example_analysis)] example_manager)
       \<le> MAX_CONCURRENT_TRADES (run [Tick (Some example_analysis), Tick (Some example_analysis),
                          Tick (Some example_analysis)] example_manager)"
    by blast
  with h show ?thesis unfolding burst_run by simp
qed

section \<open>Stopping the session\<close>

lemma finalStatus_not_active: "finalStatus reason \<noteq> ''active''"
  by (simp add: finalStatus_def)

lemma stopSession_again:
  "stopSession reason2 now2 (stopSession reason1 now1 ms) = stopSession reason1 now1 ms"
  by (cases ms)
     (auto simp: stopSession_def stopSession_begin_def stopSession_update_def
                 stopSession_finish_def finalStatus_not_active Let_def
           split: option.splits if_splits prod.splits)

lemma stopSession_active:
  assumes "isActive m" and "session m = Some s" and "sessionDoc db = Some d"
  shows "stopSession reason now (m, db)
         = (m\<lparr> isActive := False, tradeQueue := [],
               session := Some (d\<lparr> session_end := Some now, final_balance := final_balance s,
                                    status := finalStatus reason \<rparr>) \<rparr>,
            db\<lparr> sessionDoc := Some (d\<lparr> session_end := Some now,
                                       final_balance := final_balance s,
                                       status := finalStatus reason \<rparr>) \<rparr>)"
  using assms
  by (simp add: stopSession_def stopSession_begin_def stopSession_update_def
        stopSession_finish_def Let_def)

text \<open>
  C3. A second \<open>stopSession\<close> after the first has finished changes nothing
  (\<open>stopSession_again\<close>). A second call made while the first is still stopping is not
  ignored: the first call has cleared \<open>isActive\<close>, but the status of the handle is
  still \<open>'active'\<close> until the first update has returned, so the guard lets the second
  call through. Stopping once for a risk breach at time 10 leaves the session
  \<open>'stopped_auto'\<close> with end time 10; with a user request overlapping at time 11 the
  session ends \<open>'stopped_user'\<close> with end time 11.
\<close>

theorem stopSession_while_stopping_not_ignored:
  "stopSession_begin example_manager
     = Some (example_manager\<lparr> isActive := False, tradeQueue := [] \<rparr>)
   \<and> stopSession_begin (example_manager\<lparr> isActive := False, tradeQueue := [] \<rparr>)
     = Some (example_manager\<lparr> isActive := False, tradeQueue := [] \<rparr>)
   \<and> session (fst (stopSession ''risk_limit_breach'' 10 (example_manager, example_store)))
     = Some (example_session\<lparr> session_end := Some 10, status := ''stopped_auto'' \<rparr>)
   \<and> session (fst (stopSession_overlapping ''risk_limit_breach'' 10 ''user_request'' 11
                     (example_manager, example_store)))
     = Some (example_session\<lparr> session_end := Some 11, status := ''stopped_user'' \<rparr>)"
  by (simp add: stopSession_overlapping_def stopSession_def stopSession_begin_def
        stopSession_update_def stopSession_finish_def finalStatus_def
        example_manager_def example_store_def example_session_def constructor_def Let_def)

section \<open>Recording a trade\<close>

lemma checkRiskLimits_session: "session (checkRiskLimits m) = session m"
  by (auto simp: checkRiskLimits_def stopSession_begin_def Let_def split: option.splits)

lemma updateSessionStats_consecutive_losses:
  assumes "session m = Some s" and "sessionDoc tx = Some d"
  shows "map_option consecutive_losses (session (fst (snd (updateSessionStats None tr m tx))))
         = Some (if tr_result tr = JString ''win'' then 0
                 else if tr_result tr = JString ''loss'' then consecutive_losses s + 1
                 else consecutive_losses d)"
  using assms by (simp add: updateSessionStats_def checkRiskLimits_session Let_def)


lemma executeTrade_record_document_missing:
  assumes "session m = Some s" and "sessionDoc db = None"
  shows "executeTrade_record None tr an m db
         = (Inr (), m,
            db\<lparr> trades := trades db @
                 [\<lparr> trade_direction = direction an,
                    trade_stake = js_or (JNumber (tr_stake tr)) (amount an),
                    trade_payout = tr_payout tr,
                    trade_result = js_or (tr_result tr) (tr_status tr) \<rparr>] \<rparr>)"
  using assms
  by (simp add: executeTrade_record_def recordTrade_def updateSessionStats_def Let_def)



text \<open>
  C10. For a result that is neither \<open>'win'\<close> nor \<open>'loss'\<close>, \<open>updateSessionStats\<close>
  succeeds and the new handle is the stored document with one more trade and the
  balance lowered by the stake: the winning trades and the consecutive losses are those
  of the stored document, unchanged.
\<close>

theorem updateSessionStats_other_result:
  assumes "tr_result tr \<noteq> JString ''win''" and "tr_result tr \<noteq> JString ''loss''"
    and "session m = Some s" and "sessionDoc tx = Some d"
  shows "fst (updateSessionStats None tr m tx) = Inr ()
       \<and> session (fst (snd (updateSessionStats None tr m tx)))
           = Some (d\<lparr> total_trades := total_trades d + 1,
                      final_balance := js_add (final_balance d) (js_neg (tr_stake tr)) \<rparr>)
       \<and> sessionDoc (snd (snd (updateSessionStats None tr m tx)))
           = session (fst (snd (updateSessionStats None tr m tx)))"
  using assms
  by (simp add: updateSessionStats_def checkRiskLimits_session Let_def)

theorem updateSessionStats_other_result_witness:
  "tr_result example_pending \<noteq> JString ''win''
   \<and> tr_result example_pending \<noteq> JString ''loss''
   \<and> session example_manager = Some example_session
   \<and> sessionDoc example_store = Some example_session
   \<and> session (fst (snd (updateSessionStats None example_pending example_manager example_store)))
       = Some (example_session\<lparr> total_trades := 1, final_balance := Num 9990 \<rparr>)"
proof -
  have h1: "tr_result example_pending \<noteq> JString ''win''"
    by (simp add: example_pending_def)
  have h2: "tr_result example_pending \<noteq> JString ''loss''"
    by (simp add: example_pending_def)
  have h3: "session example_manager = Some example_session"
    by (simp add: example_manager_def)
  have h4: "sessionDoc example_store = Some example_session"
    by (simp add: example_store_def)
  from updateSessionStats_other_result [OF h1 h2 h3 h4] h1 h2 h3 h4
  show ?thesis
    by (simp add: example_pending_def example_session_def)
qed

section \<open>Reconnecting the market data\<close>

lemma pow2_le_16: "n < 5 \<Longrightarrow> (2::real) ^ n \<le> 16"
proof -
  assume "n < 5"
  then have "(2::real) ^ n \<le> 2 ^ 4" by (intro power_increasing) auto
  then show ?thesis by simp
qed

lemma onClose_schedules_reconnect:
  assumes "reconnectAttempts st < MAX_RECONNECTS"
  shows "onClose random st
        = (st\<lparr> isConnected := False, isConnecting := False, ticking := False,
               reconnectAttempts := reconnectAttempts st + 1 \<rparr>,
           [Emit_close,
            Reconnect_after (2 ^ reconnectAttempts st * RECONNECT_DELAY_BASE + random * 1000)])"
  using assms by (simp add: onClose_def Let_def)

lemma onClose_delay_is_spec_delay:
  assumes "reconnectAttempts st < MAX_RECONNECTS" and "16000 \<le> cap"
  shows "2 ^ reconnectAttempts st * RECONNECT_DELAY_BASE + random * 1000
         = spec_reconnect_delay (reconnectAttempts st) RECONNECT_DELAY_BASE cap (random * 1000)"
proof -
  from assms(1) have "(2::real) ^ reconnectAttempts st \<le> 16"
    by (simp add: MAX_RECONNECTS_def pow2_le_16)
  with assms(2) have "2 ^ reconnectAttempts st * (1000::real) \<le> cap" by simp
  then show ?thesis
    by (simp add: spec_reconnect_delay_def RECONNECT_DELAY_BASE_def min_def)
qed

lemma onClose_attempts_used_up:
  assumes "\<not> reconnectAttempts st < MAX_RECONNECTS"
  shows "onClose random st
        = (st\<lparr> isConnected := False, isConnecting := False, ticking := False \<rparr>,
           [Emit_close, Emit_error])"
  using assms by (simp add: onClose_def Let_def)

lemma onClose_example:
  "snd (onClose (1 / 2) example_stream) = [Emit_close, Reconnect_after 16500]
   \<and> reconnectAttempts (fst (onClose (1 / 2) example_stream)) = 5
   \<and> snd (onClose (1 / 2) (fst (onClose (1 / 2) example_stream))) = [Emit_close, Emit_error]"
  by (simp add: onClose_def example_stream_def MAX_RECONNECTS_def RECONNECT_DELAY_BASE_def
        Let_def)

text \<open>
  C9. The stream does its part: a close with attempts left schedules the reconnect
  after \<open>2^attempt * 1000\<close> ms plus the jitter, which is the delay of the
  specification for every cap of at least 16000 ms, and a close with the five attempts
  used up emits \<open>'error'\<close> (the lemmas above). The manager never hears that event:
  \<open>connectMarketData\<close> builds the stream with \<open>new MarketDataStream(symbol)\<close>, and
  its module neither requires nor declares \<open>MarketDataStream\<close>, so for every symbol
  the call throws before the listener that would stop the session with
  \<open>'market_data_error'\<close> is registered.
\<close>

theorem connectMarketData_registers_no_listener:
  "connectMarketData (JString ''R_100'') = Inl (ReferenceError ''MarketDataStream is not defined'')
   \<and> isl (connectMarketData symbol)"
  by (simp add: connectMarketData_def resolve_def module_scope_def)

end
